theory Spec2Isabelle
  imports Complex_Main "HOL-Library.AList"
begin

section \<open>Values of the program\<close>

text \<open>
  Exceptions are values. \<open>TypeError\<close>, \<open>KeyError\<close>, \<open>AttributeError\<close> and \<open>ValueError\<close>
  are the ones the interpreter raises in the code under \<open>src/\<close>; \<open>ExternalError\<close> stands
  for any exception coming out of a collaborator that is not part of these files (pvlib,
  the weather fetch, the later pipeline stages).
\<close>

datatype error = TypeError | KeyError | AttributeError | ValueError | ExternalError

definition and_then :: "error + 'a \<Rightarrow> ('a \<Rightarrow> error + 'b) \<Rightarrow> error + 'b" where
  "and_then r f = (case r of Inl e \<Rightarrow> Inl e | Inr x \<Rightarrow> f x)"

subsection \<open>Floats\<close>

text \<open>
  A float is an IEEE 754 double: a finite number with its sign kept apart from its
  magnitude (so that there are two zeros), an infinity of either sign, or NaN. The sign is
  \<open>True\<close> for minus; the magnitude of a finite double is not negative.

  \<open>rnd\<close> rounds a magnitude to the nearest double, ties to the even significand: the unit
  in the last place of a magnitude \<open>m\<close> is \<open>2 ^ ulp_exponent m\<close>, 52 binary places below
  the leading bit of \<open>m\<close> and never below \<open>2 ^ -1074\<close>, the spacing of the subnormal
  numbers. A magnitude that rounds to \<open>2 ^ 1024\<close> or beyond overflows to infinity.
  \<open>Fin r\<close> is the double that the literal \<open>r\<close> denotes.
\<close>

datatype pyfloat = Finite bool real | Infinity bool | NaN

definition round_half_even :: "real \<Rightarrow> int" where
  "round_half_even x =
     (let n = \<lfloor>x\<rfloor>; r = x - of_int n
      in if r < 1 / 2 then n else if 1 / 2 < r then n + 1 else if even n then n else n + 1)"

definition ulp_exponent :: "real \<Rightarrow> int" where
  "ulp_exponent m = (if m < 2 powr (- 1022) then - 1074 else \<lfloor>log 2 m\<rfloor> - 52)"

definition rnd :: "real \<Rightarrow> real" where
  "rnd m =
     of_int (round_half_even (m / 2 powr of_int (ulp_exponent m))) * 2 powr of_int (ulp_exponent m)"

definition round_to_double :: "bool \<Rightarrow> real \<Rightarrow> pyfloat" where
  "round_to_double s m = (if rnd m < 2 powr 1024 then Finite s (rnd m) else Infinity s)"

definition Fin :: "real \<Rightarrow> pyfloat" where
  "Fin r = round_to_double (r < 0) \<bar>r\<bar>"

definition signed :: "bool \<Rightarrow> real \<Rightarrow> real" where
  "signed s m = (if s then - m else m)"

text \<open>
  The operators of the language on doubles. A product takes the exclusive or of the
  signs, also when it is zero or infinite; infinity times zero is NaN. A sum that is
  exactly zero is plus zero unless both terms are minus zero; infinities of opposite sign
  add up to NaN. \<open>fhalf\<close> is the division by the literal 2.
\<close>

fun fneg :: "pyfloat \<Rightarrow> pyfloat" where
  "fneg (Finite s m) = Finite (\<not> s) m"
| "fneg (Infinity s) = Infinity (\<not> s)"
| "fneg NaN = NaN"

fun fmul :: "pyfloat \<Rightarrow> pyfloat \<Rightarrow> pyfloat" where
  "fmul (Finite s m) (Finite t n) = round_to_double (s \<noteq> t) (m * n)"
| "fmul (Finite s m) (Infinity t) = (if m = 0 then NaN else Infinity (s \<noteq> t))"
| "fmul (Infinity s) (Finite t n) = (if n = 0 then NaN else Infinity (s \<noteq> t))"
| "fmul (Infinity s) (Infinity t) = Infinity (s \<noteq> t)"
| "fmul NaN b = NaN"
| "fmul a NaN = NaN"

fun fadd :: "pyfloat \<Rightarrow> pyfloat \<Rightarrow> pyfloat" where
  "fadd (Finite s m) (Finite t n) =
     (let v = signed s m + signed t n
      in if v = 0 then Finite (s \<and> t) 0 else round_to_double (v < 0) \<bar>v\<bar>)"
| "fadd (Finite s m) (Infinity t) = Infinity t"
| "fadd (Infinity s) (Finite t n) = Infinity s"
| "fadd (Infinity s) (Infinity t) = (if s = t then Infinity s else NaN)"
| "fadd NaN b = NaN"
| "fadd a NaN = NaN"

definition fsub :: "pyfloat \<Rightarrow> pyfloat \<Rightarrow> pyfloat" where
  "fsub a b = fadd a (fneg b)"

fun fhalf :: "pyfloat \<Rightarrow> pyfloat" where
  "fhalf (Finite s m) = round_to_double s (m / 2)"
| "fhalf (Infinity s) = Infinity s"
| "fhalf NaN = NaN"

text \<open>
  The functions of numpy and of the math module that the projections call.
  \<open>numpy.radians\<close> multiplies by the constant pi / 180, itself computed in doubles.
  The cosine of a finite double is modelled as the cosine rounded to the nearest double;
  the C library's result can differ from that in the last bit, except at zero, where it
  is exactly 1. On an infinity \<open>numpy.cos\<close> gives NaN and \<open>math.cos\<close> raises ValueError.
  \<open>fclip\<close> is one entry of \<open>Series.clip\<close>: a NaN stays, a value below the lower bound or
  above the upper bound is replaced by the bound.
\<close>

fun fabs :: "pyfloat \<Rightarrow> pyfloat" where
  "fabs (Finite s m) = Finite False m"
| "fabs (Infinity s) = Infinity False"
| "fabs NaN = NaN"

definition deg2rad :: pyfloat where
  "deg2rad = Finite False (rnd (rnd pi / 180))"

definition radians :: "pyfloat \<Rightarrow> pyfloat" where
  "radians x = fmul x deg2rad"

fun fcos :: "pyfloat \<Rightarrow> pyfloat" where
  "fcos (Finite s m) = Fin (cos m)"
| "fcos (Infinity s) = NaN"
| "fcos NaN = NaN"

fun math_cos :: "pyfloat \<Rightarrow> error + pyfloat" where
  "math_cos (Finite s m) = Inr (Fin (cos m))"
| "math_cos (Infinity s) = Inl ValueError"
| "math_cos NaN = Inr NaN"

fun fclip :: "real \<Rightarrow> real \<Rightarrow> pyfloat \<Rightarrow> pyfloat" where
  "fclip lower upper (Finite s m) =
     (if signed s m < lower then Fin lower
      else if upper < signed s m then Fin upper
      else Finite s m)"
| "fclip lower upper (Infinity s) = (if s then Fin lower else Fin upper)"
| "fclip lower upper NaN = NaN"

text \<open>
  The projection functions are written for one number and called with whole columns:
  numpy broadcasts. A number is a scalar or a series; an operation on two series works
  position by position (the columns of one frame share its index).
\<close>

datatype numeric = Scalar pyfloat | Series "pyfloat list"

fun lift1 :: "(pyfloat \<Rightarrow> pyfloat) \<Rightarrow> numeric \<Rightarrow> numeric" where
  "lift1 f (Scalar a) = Scalar (f a)"
| "lift1 f (Series xs) = Series (map f xs)"

fun lift2 :: "(pyfloat \<Rightarrow> pyfloat \<Rightarrow> pyfloat) \<Rightarrow> numeric \<Rightarrow> numeric \<Rightarrow> numeric" where
  "lift2 f (Scalar a) (Scalar b) = Scalar (f a b)"
| "lift2 f (Scalar a) (Series ys) = Series (map (f a) ys)"
| "lift2 f (Series xs) (Scalar b) = Series (map (\<lambda>x. f x b) xs)"
| "lift2 f (Series xs) (Series ys) = Series (map2 f xs ys)"

type_synonym timestamp = int

text \<open>
  A dataframe: the timestamp index and the columns in insertion order. \<open>df[name]\<close> raises
  KeyError for a missing column; \<open>df[name] = v\<close> overwrites a column where it stands or
  appends a new one, broadcasting a scalar over the rows.
\<close>

record frame =
  index :: "timestamp list"
  columns :: "(string \<times> pyfloat list) list"

definition has_column :: "frame \<Rightarrow> string \<Rightarrow> bool" where
  "has_column df name = (name \<in> set (map fst (columns df)))"

definition getitem :: "frame \<Rightarrow> string \<Rightarrow> error + numeric" where
  "getitem df name =
     (case map_of (columns df) name of
        None \<Rightarrow> Inl KeyError
      | Some xs \<Rightarrow> Inr (Series xs))"

fun to_column :: "nat \<Rightarrow> numeric \<Rightarrow> pyfloat list" where
  "to_column n (Scalar a) = replicate n a"
| "to_column n (Series xs) = xs"

definition setitem :: "frame \<Rightarrow> string \<Rightarrow> numeric \<Rightarrow> frame" where
  "setitem df name v =
     df\<lparr>columns := AList.update name (to_column (length (index df)) v) (columns df)\<rparr>"

subsection \<open>config.py\<close>

record Config =
  site_name :: string
  save_directory :: string
  save_plot :: bool
  save_csv :: bool
  save_json :: bool
  console_print :: bool
  latitude :: pyfloat
  longitude :: pyfloat
  tilt :: pyfloat
  azimuth :: pyfloat
  rated_power :: pyfloat
  albedo :: pyfloat
  module_elevation :: pyfloat
  wind_speed :: pyfloat
  air_temp :: pyfloat
  timezone :: string
  data_resolution :: int
  use_caching :: bool

text \<open>The class attributes of \<open>Config\<close>: what \<open>Config()\<close> holds.\<close>

definition default_config :: Config where
  "default_config =
     \<lparr>site_name = ''output_example'', save_directory = ''output/'',
      save_plot = True, save_csv = False, save_json = False, console_print = True,
      latitude = Fin (602044 / 10000), longitude = Fin (249625 / 10000),
      tilt = Fin 15, azimuth = Fin 135, rated_power = Fin 21,
      albedo = Fin (151 / 1000), module_elevation = Fin 8,
      wind_speed = Fin 2, air_temp = Fin 20,
      timezone = ''UTC'', data_resolution = 60, use_caching = True\<rparr>"

text \<open>
  What a Python name can be bound to in the calls below. A call passes a list of such
  values; a function defined with one parameter accepts a list of length one and raises
  TypeError on any other.
\<close>

datatype pyval = VConfig Config | VIndex "timestamp list" | VNum numeric | VClass string

text \<open>
  \<open>import config\<close> binds the module \<open>config.py\<close>, whose only top-level name is the class
  \<open>Config\<close>. Reading any other attribute of the module raises AttributeError.
\<close>

definition config_module :: "(string \<times> pyval) list" where
  "config_module = [(''Config'', VClass ''Config'')]"

definition getattr :: "(string \<times> pyval) list \<Rightarrow> string \<Rightarrow> error + pyval" where
  "getattr m name =
     (case map_of m name of
        None \<Rightarrow> Inl AttributeError
      | Some v \<Rightarrow> Inr v)"

subsection \<open>pvlib\<close>

text \<open>
  pvlib is a library, not code of this repository: its functions are parameters.
  \<open>get_solarposition lat lon tz dt\<close> is \<open>Location(lat, lon, tz=tz).get_solarposition(dt)\<close>,
  a frame with the columns \<open>apparent_zenith\<close> and \<open>azimuth\<close> among others.
\<close>

record pvlib =
  get_solarposition :: "pyval \<Rightarrow> pyval \<Rightarrow> pyval \<Rightarrow> pyval \<Rightarrow> error + frame"
  aoi :: "pyval \<Rightarrow> pyval \<Rightarrow> numeric \<Rightarrow> numeric \<Rightarrow> error + numeric"
  get_relative_airmass :: "numeric \<Rightarrow> error + numeric"
  get_extra_radiation :: "timestamp list \<Rightarrow> error + numeric"
  perez :: "pyfloat \<Rightarrow> pyfloat \<Rightarrow> numeric \<Rightarrow> numeric \<Rightarrow> numeric \<Rightarrow> numeric \<Rightarrow> numeric \<Rightarrow> numeric \<Rightarrow> error + numeric"

section \<open>helpers/astronomical_calculations.py\<close>

definition get_solar_azimuth_zenit_fast :: "pvlib \<Rightarrow> pyval list \<Rightarrow> error + (numeric \<times> numeric)" where
  "get_solar_azimuth_zenit_fast lib args =
     (case args of
        [dt] \<Rightarrow>
          and_then (getattr config_module ''latitude'') (\<lambda>panel_latitude.
          and_then (getattr config_module ''longitude'') (\<lambda>panel_longitude.
          and_then (getattr config_module ''timezone'') (\<lambda>tz.
          and_then (get_solarposition lib panel_latitude panel_longitude tz dt) (\<lambda>solar_position.
          and_then (getitem solar_position ''apparent_zenith'') (\<lambda>solar_apparent_zenith.
          and_then (getitem solar_position ''azimuth'') (\<lambda>solar_azimuth.
          Inr (solar_azimuth, solar_apparent_zenith)))))))
      | _ \<Rightarrow> Inl TypeError)"

definition get_air_mass_fast :: "pvlib \<Rightarrow> pyval list \<Rightarrow> error + numeric" where
  "get_air_mass_fast lib args =
     (case args of
        [time] \<Rightarrow>
          and_then (get_solar_azimuth_zenit_fast lib [time]) (\<lambda>position.
          get_relative_airmass lib (snd position))
      | _ \<Rightarrow> Inl TypeError)"

definition get_solar_angle_of_incidence_fast :: "pvlib \<Rightarrow> pyval list \<Rightarrow> error + numeric" where
  "get_solar_angle_of_incidence_fast lib args =
     (case args of
        [dt] \<Rightarrow>
          and_then (get_solar_azimuth_zenit_fast lib [dt]) (\<lambda>(solar_azimuth, solar_apparent_zenith).
          and_then (getattr config_module ''tilt'') (\<lambda>panel_tilt.
          and_then (getattr config_module ''azimuth'') (\<lambda>panel_azimuth.
          and_then (aoi lib panel_tilt panel_azimuth solar_apparent_zenith solar_azimuth) (\<lambda>angle_of_incidence.
          Inr (lift1 (fclip 0 90) angle_of_incidence)))))
      | _ \<Rightarrow> Inl TypeError)"

section \<open>helpers/irradiance_transpositions.py\<close>

definition project_dni_to_panel_surface_using_angle :: "numeric \<Rightarrow> numeric \<Rightarrow> numeric" where
  "project_dni_to_panel_surface_using_angle dni angle_of_incidence =
     lift2 fmul dni (lift1 fcos (lift1 radians angle_of_incidence))"

definition project_dni_to_panel_surface_using_time_fast ::
    "pvlib \<Rightarrow> Config \<Rightarrow> numeric \<Rightarrow> timestamp list \<Rightarrow> error + numeric" where
  "project_dni_to_panel_surface_using_time_fast lib config dni dt =
     and_then (get_solar_angle_of_incidence_fast lib [VConfig config, VIndex dt]) (\<lambda>angle_of_incidence.
     Inr (lift1 fabs (project_dni_to_panel_surface_using_angle dni angle_of_incidence)))"

definition project_dhi_to_panel_surface :: "Config \<Rightarrow> numeric \<Rightarrow> error + numeric" where
  "project_dhi_to_panel_surface config dhi =
     and_then (math_cos (radians (tilt config))) (\<lambda>cosine.
     Inr (lift2 fmul dhi (Scalar (fhalf (fadd (Fin 1) cosine)))))"

definition project_dhi_to_panel_surface_perez_fast ::
    "pvlib \<Rightarrow> Config \<Rightarrow> timestamp list \<Rightarrow> numeric \<Rightarrow> numeric \<Rightarrow> error + numeric" where
  "project_dhi_to_panel_surface_perez_fast lib config time dhi dni =
     and_then (get_extra_radiation lib time) (\<lambda>dni_extra.
     let surface_tilt = tilt config;
         surface_azimuth = azimuth config
     in
     and_then (get_solar_azimuth_zenit_fast lib [VConfig config, VIndex time]) (\<lambda>(solar_azimuth, solar_zenith).
     and_then (get_air_mass_fast lib [VConfig config, VIndex time]) (\<lambda>airmass.
     perez lib surface_tilt surface_azimuth dhi dni dni_extra solar_zenith solar_azimuth airmass)))"

definition project_ghi_to_panel_surface :: "numeric \<Rightarrow> numeric \<Rightarrow> pyfloat \<Rightarrow> error + numeric" where
  "project_ghi_to_panel_surface ghi albedo_factor panel_tilt =
     and_then (math_cos (radians panel_tilt)) (\<lambda>cosine.
     let step1 = fhalf (fsub (Fin 1) cosine);
         step2 = lift2 fmul (lift2 fmul ghi albedo_factor) (Scalar step1)
     in Inr step2)"

text \<open>
  The frame is one object, changed in place. An outcome carries the state of that object
  when the call ends: on a \<open>return\<close>, and also when an exception leaves the function.
  A statement \<open>df[name] = rhs\<close> evaluates \<open>rhs\<close> first; when that raises, the frame is as
  the earlier statements left it.
\<close>

datatype outcome = Raises error frame | Returns frame

definition assign :: "string \<Rightarrow> (frame \<Rightarrow> error + numeric) \<Rightarrow> outcome \<Rightarrow> outcome" where
  "assign name rhs before =
     (case before of
        Raises e df \<Rightarrow> Raises e df
      | Returns df \<Rightarrow>
          (case rhs df of
             Inl e \<Rightarrow> Raises e df
           | Inr v \<Rightarrow> Returns (setitem df name v)))"

definition irradiance_df_to_poa_df :: "pvlib \<Rightarrow> Config \<Rightarrow> frame \<Rightarrow> outcome" where
  "irradiance_df_to_poa_df lib config irradiance_df =
     assign ''poa'' (\<lambda>df.
       and_then (getitem df ''dhi_poa'') (\<lambda>dhi_poa.
       and_then (getitem df ''dni_poa'') (\<lambda>dni_poa.
       and_then (getitem df ''ghi_poa'') (\<lambda>ghi_poa.
       Inr (lift2 fadd (lift2 fadd dhi_poa dni_poa) ghi_poa)))))
    (assign ''ghi_poa'' (\<lambda>df.
       if has_column df ''albedo'' then
         and_then (getitem df ''ghi'') (\<lambda>ghi.
         and_then (getitem df ''albedo'') (\<lambda>albedo_column.
         project_ghi_to_panel_surface ghi albedo_column (tilt config)))
       else
         and_then (getitem df ''ghi'') (\<lambda>ghi.
         project_ghi_to_panel_surface ghi (Scalar (albedo config)) (tilt config)))
    (assign ''dhi_poa'' (\<lambda>df.
       and_then (getitem df ''dhi'') (\<lambda>dhi.
       and_then (getitem df ''dni'') (\<lambda>dni.
       project_dhi_to_panel_surface_perez_fast lib config (index df) dhi dni)))
    (assign ''dni_poa'' (\<lambda>df.
       and_then (getitem df ''dni'') (\<lambda>dni.
       project_dni_to_panel_surface_using_time_fast lib config dni (index df)))
    (Returns irradiance_df))))"

section \<open>main.py\<close>

text \<open>
  The stages that \<open>main.py\<close> imports from modules outside these files are parameters:
  the irradiance source and the reflection, temperature and output estimators. Each reads
  the configuration and returns a frame or raises.
\<close>

record helpers =
  get_solar_irradiance :: "Config \<Rightarrow> timestamp \<Rightarrow> int \<Rightarrow> string \<Rightarrow> error + frame"
  add_reflection_corrected_poa_components_to_df :: "Config \<Rightarrow> frame \<Rightarrow> error + frame"
  add_reflection_corrected_poa_to_df :: "frame \<Rightarrow> pyfloat \<Rightarrow> error + frame"
  add_wind_and_temp_to_df1_from_df2 :: "frame \<Rightarrow> frame \<Rightarrow> error + frame"
  add_dummy_wind_and_temp :: "frame \<Rightarrow> pyfloat \<Rightarrow> pyfloat \<Rightarrow> error + frame"
  add_estimated_panel_temperature :: "frame \<Rightarrow> pyfloat \<Rightarrow> error + frame"
  add_output_to_df :: "Config \<Rightarrow> frame \<Rightarrow> error + frame"

fun returned :: "outcome \<Rightarrow> error + frame" where
  "returned (Raises e df) = Inl e"
| "returned (Returns df) = Inr df"

text \<open>
  \<open>get_fmi_data\<close> writes to the configuration object it is given. The model returns the
  result of the call (the table, or the exception that left it) together with the
  configuration object as the call leaves it. \<open>date_start\<close> is today's date, read from
  the clock.
\<close>

definition get_fmi_data ::
    "helpers \<Rightarrow> pvlib \<Rightarrow> timestamp \<Rightarrow> Config \<Rightarrow> int \<Rightarrow> (error + frame) \<times> Config" where
  "get_fmi_data h lib date_start config0 day_range =
     (let original_data_resolution = data_resolution config0;
          config = config0\<lparr>data_resolution := 60\<rparr>;
          steps =
            and_then (get_solar_irradiance h config date_start day_range ''fmiopen'') (\<lambda>data.
            and_then (returned (irradiance_df_to_poa_df lib config data)) (\<lambda>data.
            and_then (add_reflection_corrected_poa_components_to_df h config data) (\<lambda>data.
            and_then (add_reflection_corrected_poa_to_df h data (tilt config)) (\<lambda>data.
            and_then (add_estimated_panel_temperature h data (module_elevation config)) (\<lambda>data.
            add_output_to_df h config data)))))
      in case steps of
           Inl e \<Rightarrow> (Inl e, config)
         | Inr data \<Rightarrow> (Inr data, config\<lparr>data_resolution := original_data_resolution\<rparr>))"

text \<open>
  \<open>DataFrame.dropna()\<close> keeps the rows that have no NaN in any column. A cell past the
  end of a short column counts as missing.
\<close>

definition cell :: "pyfloat list \<Rightarrow> nat \<Rightarrow> pyfloat" where
  "cell xs i = (if i < length xs then xs ! i else NaN)"

definition complete_row :: "frame \<Rightarrow> nat \<Rightarrow> bool" where
  "complete_row df i = list_all (\<lambda>c. cell (snd c) i \<noteq> NaN) (columns df)"

definition dropna :: "frame \<Rightarrow> frame" where
  "dropna df =
     (let keep = filter (complete_row df) [0..<length (index df)]
      in \<lparr>index = map (\<lambda>i. index df ! i) keep,
          columns = map (\<lambda>c. (fst c, map (cell (snd c)) keep)) (columns df)\<rparr>)"

definition get_pvlib_data ::
    "helpers \<Rightarrow> pvlib \<Rightarrow> timestamp \<Rightarrow> Config \<Rightarrow> int \<Rightarrow> frame option \<Rightarrow> error + frame" where
  "get_pvlib_data h lib date_start config day_range data_fmi =
     and_then (get_solar_irradiance h config date_start day_range ''pvlib'') (\<lambda>data_pvlib.
     and_then (returned (irradiance_df_to_poa_df lib config data_pvlib)) (\<lambda>data_pvlib.
     and_then (add_reflection_corrected_poa_components_to_df h config data_pvlib) (\<lambda>data_pvlib.
     and_then (add_reflection_corrected_poa_to_df h data_pvlib (tilt config)) (\<lambda>data_pvlib.
     and_then (case data_fmi of
                 Some donor \<Rightarrow> add_wind_and_temp_to_df1_from_df2 h data_pvlib donor
               | None \<Rightarrow> add_dummy_wind_and_temp h data_pvlib (wind_speed config) (air_temp config))
       (\<lambda>data_pvlib.
     and_then (add_estimated_panel_temperature h data_pvlib (module_elevation config)) (\<lambda>data_pvlib.
     and_then (add_output_to_df h config data_pvlib) (\<lambda>data_pvlib.
     Inr (dropna data_pvlib))))))))"

section \<open>Concrete inputs\<close>

text \<open>
  Fixed inputs for the concrete runs below. \<open>sample_pvlib\<close> stands in for the library with
  one-row answers (sun at zenith 45, azimuth 180); \<open>sample_helpers\<close> stands in for the
  stages outside these files: its source returns \<open>sample_frame\<close>, the later stages hand the
  frame on. \<open>offline_helpers\<close> is the same with a weather source that cannot be reached.
\<close>

definition sample_pvlib :: pvlib where
  "sample_pvlib =
     \<lparr>get_solarposition = (\<lambda>lat lon tz dt.
        Inr \<lparr>index = [0], columns = [(''apparent_zenith'', [Fin 45]), (''azimuth'', [Fin 180])]\<rparr>),
      aoi = (\<lambda>panel_tilt panel_azimuth zenith azimuth. Inr (Series [Fin 30])),
      get_relative_airmass = (\<lambda>zenith. Inr (Series [Fin (3 / 2)])),
      get_extra_radiation = (\<lambda>time. Inr (Series [Fin 1361])),
      perez = (\<lambda>surface_tilt surface_azimuth dhi dni dni_extra zenith azimuth airmass. Inr dhi)\<rparr>"

definition sample_frame :: frame where
  "sample_frame =
     \<lparr>index = [0],
      columns = [(''dni'', [Fin 100]), (''dhi'', [Fin 50]), (''ghi'', [Fin 120])]\<rparr>"

definition albedo_frame :: frame where
  "albedo_frame =
     \<lparr>index = [0],
      columns = [(''dni'', [Fin 800]), (''dhi'', [Fin 100]), (''ghi'', [Fin 1000]),
                 (''albedo'', [Fin (1 / 5)])]\<rparr>"

definition frame_without_dni :: frame where
  "frame_without_dni =
     \<lparr>index = [0], columns = [(''dhi'', [Fin 50]), (''ghi'', [Fin 120])]\<rparr>"

definition sample_helpers :: helpers where
  "sample_helpers =
     \<lparr>get_solar_irradiance = (\<lambda>config date_start day_count model. Inr sample_frame),
      add_reflection_corrected_poa_components_to_df = (\<lambda>config df. Inr df),
      add_reflection_corrected_poa_to_df = (\<lambda>df panel_tilt. Inr df),
      add_wind_and_temp_to_df1_from_df2 = (\<lambda>df1 df2. Inr df1),
      add_dummy_wind_and_temp = (\<lambda>df wind temp. Inr df),
      add_estimated_panel_temperature = (\<lambda>df elevation. Inr df),
      add_output_to_df = (\<lambda>config df. Inr df)\<rparr>"

definition offline_helpers :: helpers where
  "offline_helpers =
     sample_helpers\<lparr>get_solar_irradiance := (\<lambda>config date_start day_count model. Inl ExternalError)\<rparr>"

section \<open>Calls into the solar position module\<close>

text \<open>
  The three functions of the solar position module take one argument. Called with one,
  they stop at the first read of a module attribute of \<open>config\<close>; called with any other
  number of arguments, the call itself fails.
\<close>

lemma azimuth_zenit_one_argument:
  "get_solar_azimuth_zenit_fast lib [dt] = Inl AttributeError"
  by (simp add: get_solar_azimuth_zenit_fast_def getattr_def config_module_def and_then_def)

lemma azimuth_zenit_other_arity:
  "length args \<noteq> 1 \<Longrightarrow> get_solar_azimuth_zenit_fast lib args = Inl TypeError"
  by (auto simp: get_solar_azimuth_zenit_fast_def split: list.splits)

lemma air_mass_other_arity:
  "length args \<noteq> 1 \<Longrightarrow> get_air_mass_fast lib args = Inl TypeError"
  by (auto simp: get_air_mass_fast_def split: list.splits)

lemma angle_of_incidence_one_argument:
  "get_solar_angle_of_incidence_fast lib [dt] = Inl AttributeError"
  by (simp add: get_solar_angle_of_incidence_fast_def azimuth_zenit_one_argument and_then_def)

lemma angle_of_incidence_other_arity:
  "length args \<noteq> 1 \<Longrightarrow> get_solar_angle_of_incidence_fast lib args = Inl TypeError"
  by (auto simp: get_solar_angle_of_incidence_fast_def split: list.splits)

lemma dni_time_fast_raises:
  "project_dni_to_panel_surface_using_time_fast lib config dni dt = Inl TypeError"
  by (simp add: project_dni_to_panel_surface_using_time_fast_def
      angle_of_incidence_other_arity and_then_def)

section \<open>The first statement of the projection step\<close>

lemma has_column_map_of:
  "has_column df name \<longleftrightarrow> map_of (columns df) name \<noteq> None"
  by (simp add: has_column_def map_of_eq_None_iff)

lemma getitem_missing:
  "getitem df name = Inl KeyError \<longleftrightarrow> \<not> has_column df name"
  by (simp add: getitem_def has_column_map_of split: option.splits)

lemma getitem_present:
  "has_column df name \<Longrightarrow> \<exists>xs. getitem df name = Inr (Series xs)"
  by (auto simp: getitem_def has_column_map_of split: option.splits)

lemma assign_Raises: "assign name rhs (Raises e df) = Raises e df"
  by (simp add: assign_def)

lemma first_statement_raises:
  "assign ''dni_poa'' (\<lambda>df.
       and_then (getitem df ''dni'') (\<lambda>dni.
       project_dni_to_panel_surface_using_time_fast lib config dni (index df)))
    (Returns df) = Raises (if has_column df ''dni'' then TypeError else KeyError) df"
proof (cases "has_column df ''dni''")
  case True
  then obtain xs where "getitem df ''dni'' = Inr (Series xs)"
    using getitem_present by blast
  with True show ?thesis
    by (simp add: assign_def and_then_def dni_time_fast_raises)
next
  case False
  then have "getitem df ''dni'' = Inl KeyError"
    by (simp add: getitem_missing)
  with False show ?thesis
    by (simp add: assign_def and_then_def)
qed

text \<open>
  Every later statement of \<open>irradiance_df_to_poa_df\<close> is skipped: the exception of the
  first one leaves the function, and the frame is as it came in.
\<close>

lemma irradiance_df_to_poa_df_outcome:
  "irradiance_df_to_poa_df lib config df =
     Raises (if has_column df ''dni'' then TypeError else KeyError) df"
  unfolding irradiance_df_to_poa_df_def first_statement_raises assign_Raises ..

lemma has_column_sample_frame: "has_column sample_frame ''dni''"
  by (simp add: has_column_def sample_frame_def)

lemma has_column_albedo_frame: "has_column albedo_frame ''dni''"
  by (simp add: has_column_def albedo_frame_def)

section \<open>The projection step never returns\<close>

text \<open>
  C1, as amended: for every configuration and every input frame,
  \<open>irradiance_df_to_poa_df\<close> leaves by an exception and never returns, and the frame is
  as it came in. For a frame with a \<open>dni\<close> column the exception is the TypeError of the
  call \<open>get_solar_angle_of_incidence_fast(config, dt)\<close>: that function, like
  \<open>get_solar_azimuth_zenit_fast\<close> and \<open>get_air_mass_fast\<close>, is defined with the single
  parameter of the instant, and each of the three is called with the configuration in
  front. For a frame without a \<open>dni\<close> column the exception is the KeyError of the
  argument \<open>irradiance_df["dni"]\<close>, evaluated before the call.
\<close>

theorem irradiance_df_to_poa_df_never_returns:
  "irradiance_df_to_poa_df lib config df =
     Raises (if has_column df ''dni'' then TypeError else KeyError) df
   \<and> get_solar_angle_of_incidence_fast lib [VConfig config, VIndex dt] = Inl TypeError
   \<and> get_solar_azimuth_zenit_fast lib [VConfig config, VIndex dt] = Inl TypeError
   \<and> get_air_mass_fast lib [VConfig config, VIndex dt] = Inl TypeError"
  by (simp add: irradiance_df_to_poa_df_outcome angle_of_incidence_other_arity
      azimuth_zenit_other_arity air_mass_other_arity)

text \<open>
  C1 as stated, a TypeError for every input frame, fails on a frame that has no \<open>dni\<close>
  column: the exception is a KeyError.
\<close>

theorem irradiance_df_to_poa_df_without_dni:
  "irradiance_df_to_poa_df sample_pvlib default_config frame_without_dni =
     Raises KeyError frame_without_dni"
  by (simp add: irradiance_df_to_poa_df_outcome has_column_def frame_without_dni_def)

text \<open>
  C2 says that \<open>__project_dni_to_panel_surface_using_time_fast\<close> returns
  \<open>|dni * cos(radians(AOI))|\<close> for every dni and instant. The code never gets to the
  product: for every configuration, dni and index the call raises TypeError, because it
  passes two arguments to \<open>get_solar_angle_of_incidence_fast\<close>.
\<close>

theorem project_dni_using_time_fast_raises:
  "project_dni_to_panel_surface_using_time_fast lib config dni dt = Inl TypeError"
  by (rule dni_time_fast_raises)

text \<open>
  C3 says that \<open>get_solar_angle_of_incidence_fast\<close> returns a value in [0, 90]. The
  code returns no value at all: with the one argument of its definition it raises
  AttributeError at the read of \<open>config.latitude\<close> (the module \<open>config\<close> has the class
  \<open>Config\<close> and no such name), and with any other number of arguments it raises
  TypeError. The clip to [0, 90] is never reached.
\<close>

theorem angle_of_incidence_never_returned:
  "get_solar_angle_of_incidence_fast lib args =
     Inl (if length args = 1 then AttributeError else TypeError)"
proof (cases "length args = 1")
  case True
  then obtain dt where "args = [dt]"
    by (cases args) simp_all
  then show ?thesis
    by (simp add: angle_of_incidence_one_argument)
next
  case False
  then show ?thesis
    by (simp add: angle_of_incidence_other_arity)
qed

text \<open>
  C4 says that \<open>irradiance_df_to_poa_df\<close> takes the albedo factor of the ground-reflected
  projection from the \<open>albedo\<close> column when the frame has one. On a frame with the columns
  dni, dhi, ghi and albedo (ghi 1000, albedo 0.2, tilt 30) the code raises TypeError in
  its first statement: the albedo column is never read and no \<open>ghi_poa\<close> column exists
  afterwards.
\<close>

theorem albedo_column_never_read:
  "irradiance_df_to_poa_df sample_pvlib (default_config\<lparr>tilt := Fin 30\<rparr>) albedo_frame =
     Raises TypeError albedo_frame
   \<and> getitem albedo_frame ''ghi_poa'' = Inl KeyError"
  by (simp add: irradiance_df_to_poa_df_outcome has_column_albedo_frame)
     (simp add: getitem_def albedo_frame_def)

text \<open>
  C5 says that the \<open>poa\<close> column written by \<open>irradiance_df_to_poa_df\<close> is the sum of
  the three projected columns. On a one-row frame with dni 100, dhi 50 and ghi 120 and the
  default configuration (tilt 15) the code raises TypeError and the frame has none of the
  four columns afterwards.
\<close>

theorem poa_never_written:
  "irradiance_df_to_poa_df sample_pvlib default_config sample_frame =
     Raises TypeError sample_frame
   \<and> \<not> has_column sample_frame ''dni_poa'' \<and> \<not> has_column sample_frame ''dhi_poa''
   \<and> \<not> has_column sample_frame ''ghi_poa'' \<and> \<not> has_column sample_frame ''poa''"
  by (simp add: irradiance_df_to_poa_df_outcome has_column_sample_frame)
     (simp add: has_column_def sample_frame_def)

text \<open>
  C7 says that \<open>irradiance_df_to_poa_df\<close> computes the \<open>dhi_poa\<close> column with the Perez
  function for every input frame. For every input frame the code leaves by an exception
  with the frame unchanged: the statement that calls the Perez function is never run.
  Called on its own, the Perez function returns no value either: it raises what
  \<open>get_extra_radiation\<close> raises, or else the TypeError of its two-argument call of
  \<open>get_solar_azimuth_zenit_fast\<close>.
\<close>

theorem dhi_poa_never_computed:
  "(\<exists>e. irradiance_df_to_poa_df lib config df = Raises e df)
   \<and> (\<exists>e. project_dhi_to_panel_surface_perez_fast lib config time dhi dni = Inl e)"
  by (simp add: irradiance_df_to_poa_df_outcome project_dhi_to_panel_surface_perez_fast_def
      azimuth_zenit_other_arity and_then_def split: sum.splits)

text \<open>
  C10 says that \<open>irradiance_df_to_poa_df\<close> adds four columns to the frame it is given
  and returns that frame. In the code no call returns, and the frame object holds
  exactly the index and the columns it held before the call.
\<close>

theorem irradiance_df_to_poa_df_adds_no_column:
  "(case irradiance_df_to_poa_df lib config df of
      Raises e after \<Rightarrow> index after = index df \<and> columns after = columns df
    | Returns after \<Rightarrow> False)"
  by (simp add: irradiance_df_to_poa_df_outcome)

section \<open>Arithmetic on doubles\<close>

text \<open>
  An integer below \<open>2 ^ 53\<close> is a double; a magnitude of \<open>2 ^ 1024\<close> or more overflows
  to an infinity of its sign.
\<close>

lemma round_half_even_of_int: "round_half_even (of_int n) = n"
  by (simp add: round_half_even_def)

lemma round_half_even_ge_floor: "\<lfloor>x\<rfloor> \<le> round_half_even x"
  by (simp add: round_half_even_def Let_def)

lemma ulp_exponent_small:
  assumes "0 \<le> m" "m < 2 ^ 53"
  shows "ulp_exponent m \<le> 0"
proof (cases "m < 2 powr (- 1022)")
  case True
  then show ?thesis by (simp add: ulp_exponent_def)
next
  case False
  have "0 < (2::real) powr (- 1022)" by simp
  with False have pos: "0 < m" by linarith
  have "m < 2 powr 53" using assms(2) by (simp add: powr_realpow [symmetric])
  then have "log 2 m < 53" using pos by (simp add: log_less_iff)
  then have "\<lfloor>log 2 m\<rfloor> \<le> 52" by linarith
  with False show ?thesis by (simp add: ulp_exponent_def)
qed

lemma rnd_of_int:
  assumes "0 \<le> n" "n < 2 ^ 53"
  shows "rnd (of_int n) = of_int n"
proof -
  define k where "k = ulp_exponent (of_int n)"
  have "k \<le> 0"
    unfolding k_def using assms by (intro ulp_exponent_small) (simp_all flip: of_int_less_iff)
  then obtain j :: nat where j: "k = - int j"
    by (metis nonpos_int_cases)
  have p: "(2::real) powr of_int k = 1 / 2 ^ j"
    by (simp add: j powr_minus powr_realpow inverse_eq_divide)
  have "of_int n / 2 powr of_int k = (of_int (n * 2 ^ j) :: real)"
    by (simp add: p)
  then have "round_half_even (of_int n / 2 powr of_int k) = n * 2 ^ j"
    by (simp only: round_half_even_of_int)
  then show ?thesis
    by (simp add: rnd_def k_def [symmetric] p)
qed

lemma round_to_double_of_int:
  assumes "0 \<le> n" "n < 2 ^ 53"
  shows "round_to_double s (of_int n) = Finite s (of_int n)"
proof -
  have "(of_int n :: real) < 2 ^ 53" using assms(2) by (simp flip: of_int_less_iff)
  also have "\<dots> < 2 powr 1024" by (simp add: powr_realpow [symmetric])
  finally have "rnd (of_int n) < 2 powr 1024"
    by (simp only: rnd_of_int [OF assms])
  then show ?thesis
    unfolding round_to_double_def by (simp only: rnd_of_int [OF assms] if_True)
qed

lemma round_to_double_0: "round_to_double s 0 = Finite s 0"
  using round_to_double_of_int [of 0 s] by simp

lemma round_to_double_1: "round_to_double s 1 = Finite s 1"
  using round_to_double_of_int [of 1 s] by simp


lemma rnd_overflow:
  assumes "2 powr 1024 \<le> m"
  shows "2 powr 1024 \<le> rnd m"
proof -
  have pos: "0 < m" using assms by (smt (verit) powr_gt_zero)
  have big: "\<not> m < 2 powr (- 1022)"
    using assms by (smt (verit) powr_less_cancel_iff)
  define e where "e = \<lfloor>log 2 m\<rfloor>"
  have "1024 \<le> log 2 m" using assms pos by (simp add: le_log_iff)
  then have e1024: "1024 \<le> e" unfolding e_def by linarith
  have "of_int e \<le> log 2 m" unfolding e_def by simp
  then have below: "2 powr of_int e \<le> m" using pos by (simp add: le_log_iff)
  have u: "ulp_exponent m = e - 52" using big by (simp add: ulp_exponent_def e_def)
  have "(2::real) powr 52 = 2 powr of_int e / 2 powr of_int (e - 52)"
    by (simp add: powr_diff [symmetric])
  also have "\<dots> \<le> m / 2 powr of_int (e - 52)"
    using below by (simp add: divide_right_mono)
  finally have "(2::real) ^ 52 \<le> m / 2 powr of_int (e - 52)"
    by (simp add: powr_realpow [symmetric])
  then have "2 ^ 52 \<le> \<lfloor>m / 2 powr of_int (e - 52)\<rfloor>"
    by (simp add: le_floor_iff)
  then have "2 ^ 52 \<le> round_half_even (m / 2 powr of_int (e - 52))"
    using round_half_even_ge_floor order_trans by blast
  then have "(2::real) ^ 52 \<le> of_int (round_half_even (m / 2 powr of_int (e - 52)))"
    by (metis of_int_le_iff of_int_numeral of_int_power)
  then have "2 ^ 52 * 2 powr of_int (e - 52) \<le> rnd m"
    by (simp add: rnd_def u)
  moreover have "(2::real) ^ 52 * 2 powr of_int (e - 52) = 2 powr of_int e"
  proof -
    have p52: "(2::real) powr 52 = 2 ^ 52" by (simp add: powr_numeral)
    have "(2::real) ^ 52 * 2 powr of_int (e - 52) = 2 powr 52 * 2 powr of_int (e - 52)"
      by (simp only: p52)
    also have "\<dots> = 2 powr (52 + of_int (e - 52))"
      by (simp only: powr_add)
    also have "52 + of_int (e - 52) = (of_int e :: real)"
      by simp
    finally show ?thesis .
  qed
  moreover have "(2::real) powr 1024 \<le> 2 powr of_int e"
    by (rule powr_mono) (use e1024 in simp_all)
  ultimately show ?thesis by linarith
qed

lemma round_to_double_overflow:
  "2 powr 1024 \<le> m \<Longrightarrow> round_to_double s m = Infinity s"
  using rnd_overflow [of m] by (simp add: round_to_double_def)

text \<open>A magnitude below half the smallest subnormal number underflows to a zero of its sign.\<close>

lemma rnd_underflow:
  assumes "0 \<le> m" "m < 2 powr (- 1075)"
  shows "rnd m = 0"
proof -
  have "(2::real) powr (- 1075) < 2 powr (- 1022)"
    by (rule powr_less_mono) simp_all
  with assms(2) have small: "m < 2 powr (- 1022)" by linarith
  then have u: "ulp_exponent m = - 1074" by (simp add: ulp_exponent_def)
  define x where "x = m / 2 powr (- 1074)"
  have "x < 2 powr (- 1075) / 2 powr (- 1074)"
    unfolding x_def using assms(2) by (intro divide_strict_right_mono) simp_all
  also have "(2::real) powr (- 1075) / 2 powr (- 1074) = 2 powr (- 1)"
    by (simp only: powr_diff [symmetric]) simp
  finally have half: "x < 1 / 2"
    by (simp add: powr_minus)
  have nonneg: "0 \<le> x"
    unfolding x_def using assms(1) by simp
  have "\<lfloor>x\<rfloor> = 0"
    using half nonneg by (simp add: floor_eq_iff)
  then have "round_half_even x = 0"
    using half by (simp add: round_half_even_def)
  then show ?thesis
    by (simp add: rnd_def u x_def)
qed

lemma round_to_double_underflow:
  "0 \<le> m \<Longrightarrow> m < 2 powr (- 1075) \<Longrightarrow> round_to_double s m = Finite s 0"
  by (simp add: round_to_double_def rnd_underflow)

lemma Fin_0: "Fin 0 = Finite False 0"
  by (simp add: Fin_def round_to_double_0)

lemma Fin_1: "Fin 1 = Finite False 1"
  by (simp add: Fin_def round_to_double_1)



lemma Fin_90: "Fin 90 = Finite False 90"
  using round_to_double_of_int [of 90 False] by (simp add: Fin_def)

lemma radians_zero: "radians (Finite s 0) = Finite s 0"
  by (simp add: radians_def deg2rad_def round_to_double_0)

text \<open>A clipped angle is NaN or a finite number between 0 and 90.\<close>

lemma fclip_0_90:
  "fclip 0 90 x = NaN \<or>
     (\<exists>s m. fclip 0 90 x = Finite s m \<and> 0 \<le> signed s m \<and> signed s m \<le> 90)"
  by (cases x) (auto simp: Fin_0 Fin_90 signed_def)






section \<open>The projection formulas\<close>


lemma project_dhi_scalar:
  "project_dhi_to_panel_surface config (Scalar dhi) =
     and_then (math_cos (radians (tilt config))) (\<lambda>cosine.
     Inr (Scalar (fmul dhi (fhalf (fadd (Fin 1) cosine)))))"
  by (simp add: project_dhi_to_panel_surface_def)





lemma math_cos_flat: "math_cos (radians (Fin 0)) = Inr (Finite False 1)"
  by (simp add: Fin_0 radians_zero Fin_1)

text \<open>
  Finite inputs can give NaN, for either sign of ghi: on a flat panel (tilt 0) the factor
  is plus zero, and a product ghi * albedo that overflows is an infinity.
\<close>

lemma project_ghi_overflow:
  "2 powr 1024 \<le> ghi * a \<Longrightarrow>
     project_ghi_to_panel_surface (Scalar (Finite s ghi)) (Scalar (Finite False a)) (Fin 0) =
       Inr (Scalar NaN)"
  by (simp add: project_ghi_to_panel_surface_def and_then_def math_cos_flat Fin_1
      fsub_def signed_def round_to_double_0 round_to_double_overflow)



section \<open>The two orchestrators of main.py\<close>

text \<open>
  C8 says that \<open>get_fmi_data\<close> restores \<open>config.data_resolution\<close> to its value before
  the call. In the code the statement that restores it is never reached: every call
  leaves by an exception, that of the weather source or that of the projection step, and
  the configuration object is left with \<open>data_resolution\<close> at 60, every other field as
  before.
\<close>

theorem get_fmi_data_never_restores:
  "\<exists>e. get_fmi_data h lib date_start config day_range =
     (Inl e, config\<lparr>data_resolution := 60\<rparr>)"
  by (simp add: get_fmi_data_def Let_def and_then_def irradiance_df_to_poa_df_outcome
      split: sum.splits)

text \<open>
  A run with a weather source that cannot be reached, from a configuration with
  resolution 15.
\<close>

lemma get_fmi_data_offline_run:
  "get_fmi_data offline_helpers sample_pvlib 0 (default_config\<lparr>data_resolution := 15\<rparr>) 3 =
     (Inl ExternalError, default_config\<lparr>data_resolution := 60\<rparr>)"
  by (simp add: get_fmi_data_def offline_helpers_def and_then_def)

text \<open>
  A run with a weather source that answers: the projection step raises, and the
  configuration, which came in with resolution 15, goes out with resolution 60. The
  clear-sky variant shares the projection step and ends the same way.
\<close>

lemma get_fmi_data_sample_run:
  "get_fmi_data sample_helpers sample_pvlib 0 (default_config\<lparr>data_resolution := 15\<rparr>) 3 =
     (Inl TypeError, default_config\<lparr>data_resolution := 60\<rparr>)"
  by (simp add: get_fmi_data_def sample_helpers_def and_then_def
      irradiance_df_to_poa_df_outcome has_column_sample_frame)

text \<open>No column of a frame that went through \<open>dropna\<close> holds a NaN.\<close>

lemma dropna_complete:
  "list_all (\<lambda>c. NaN \<notin> set (snd c)) (columns (dropna df))"
  unfolding dropna_def Let_def list_all_iff
  by (auto simp: complete_row_def list_all_iff)

lemma get_pvlib_data_raises:
  "\<exists>e. get_pvlib_data h lib date_start config day_range data_fmi = Inl e"
  by (simp add: get_pvlib_data_def and_then_def irradiance_df_to_poa_df_outcome
      split: sum.splits)

text \<open>
  C9 says that the table returned by \<open>get_fmi_data\<close> has no row with a NaN output. The
  code returns no table: whatever the source and the later stages do, the call leaves by
  an exception (that of the source, or that of the projection step). The function has no
  \<open>dropna\<close> either; the one that ends with \<open>dropna\<close> is \<open>get_pvlib_data\<close>.
\<close>

theorem get_fmi_data_returns_no_table:
  "\<exists>e. fst (get_fmi_data h lib date_start config day_range) = Inl e"
  by (simp add: get_fmi_data_def Let_def and_then_def irradiance_df_to_poa_df_outcome
      split: sum.splits)

end
